theory Spec2Isabelle
  imports Main "HOL-Library.Word" "HOL-Library.Sublist"
begin

section \<open>Data model of \<^verbatim>\<open>main.go\<close>\<close>

text \<open>
  The three structs of the inventory response. Go strings are byte sequences compared
  byte by byte, which is what \<^typ>\<open>string\<close> (a list of 8-bit characters) is; \<^verbatim>\<open>int64\<close>
  fields are 64-bit words. The anonymous nested struct \<^verbatim>\<open>Meta.Origin.Region\<close> becomes
  two small records. Both \<^verbatim>\<open>PrismSubnet\<close> and \<^verbatim>\<open>PrismVPC\<close> have a field \<^verbatim>\<open>State\<close>; the
  subnet's one is written \<open>PrismSubnet.State\<close>.
\<close>

record PrismSubnet =
  AvailabilityZone :: string
  AvailableIPAddressCount :: "64 word"
  CapacityIPAddressCount :: "64 word"
  CidrBlock :: string
  OwnerID :: string
  State :: string
  SubnetArn :: string
  SubnetID :: string
  IsPublic :: bool

record PrismOrigin =
  Region :: string

record PrismMeta =
  Origin :: PrismOrigin

record PrismVPC =
  VPCID :: string
  AccountID :: string
  State :: string
  IsDefault :: bool
  Subnets :: "PrismSubnet list"
  Tags :: "string \<rightharpoonup> string"
  Meta :: PrismMeta

record PrismData =
  VPCs :: "PrismVPC list"

record PrismResponse =
  Data :: PrismData

text \<open>
  A Go \<^verbatim>\<open>error\<close> is observed by this program only through its message (\<^verbatim>\<open>%s\<close> and \<^verbatim>\<open>%v\<close>
  print \<^verbatim>\<open>err.Error()\<close>), so an error value is its message.
\<close>

type_synonym error = string

definition errors_New :: "string \<Rightarrow> error" where
  "errors_New text = text"

section \<open>Library formatting used by the program\<close>

text \<open>
  \<^verbatim>\<open>len\<close> of a slice is a Go \<^verbatim>\<open>int\<close>; the verb \<^verbatim>\<open>%d\<close> prints it in decimal, most significant
  digit first, with a minus sign for a negative number. The digit \<open>d\<close> below ten is the
  byte \<^verbatim>\<open>'0' + d\<close>, the \<open>d\<close>-th byte of \<^verbatim>\<open>0123456789\<close>.
\<close>

definition len :: "'a list \<Rightarrow> int" where
  "len xs = int (length xs)"

definition digit :: "nat \<Rightarrow> char" where
  "digit d = ''0123456789'' ! d"

function fmtUint :: "nat \<Rightarrow> string" where
  "fmtUint u = (if u < 10 then [digit u] else fmtUint (u div 10) @ [digit (u mod 10)])"
  by pat_completeness auto
termination
  by (relation "measure id") auto

declare fmtUint.simps [simp del]

definition fmt_d :: "int \<Rightarrow> string" where
  "fmt_d i = (if i < 0 then CHR ''-'' # fmtUint (nat (- i)) else fmtUint (nat i))"

text \<open>Reading a decimal numeral back, to say what number a printed text states.\<close>

definition digit_value :: "char \<Rightarrow> nat" where
  "digit_value c = of_char c - of_char CHR ''0''"

definition decimal_value :: "string \<Rightarrow> nat" where
  "decimal_value s = foldl (\<lambda>acc c. 10 * acc + digit_value c) 0 s"

section \<open>The generic filter\<close>

text \<open>
  \<^verbatim>\<open>Filter\<close> walks \<^verbatim>\<open>items\<close> from the front and appends every item accepted by \<^verbatim>\<open>pred\<close> to
  \<^verbatim>\<open>out\<close>, which starts empty.
\<close>

fun Filter_loop :: "'a list \<Rightarrow> ('a \<Rightarrow> bool) \<Rightarrow> 'a list \<Rightarrow> 'a list" where
  "Filter_loop [] pred out = out"
| "Filter_loop (item # items) pred out =
     Filter_loop items pred (if pred item then out @ [item] else out)"

definition Filter :: "'a list \<Rightarrow> ('a \<Rightarrow> bool) \<Rightarrow> 'a list" where
  "Filter items pred = Filter_loop items pred []"

section \<open>The compliance evaluator\<close>

definition checkCompliance :: "PrismVPC \<Rightarrow> error list" where
  "checkCompliance vpc =
     (let errs = [] in
      if Region (Origin (Meta vpc)) \<noteq> ''eu-west-1'' then errs
      else if IsDefault vpc then errs @ [errors_New ''is Default VPC'']
      else
        let publicSubnets = Filter (Subnets vpc) (\<lambda>subnet. IsPublic subnet);
            privateSubnets = Filter (Subnets vpc) (\<lambda>subnet. \<not> IsPublic subnet);
            errs = (if len publicSubnets \<noteq> 3
                    then errs @ [''expected 3 public subnets, found '' @ fmt_d (len publicSubnets)]
                    else errs);
            errs = (if len privateSubnets \<noteq> 3
                    then errs @ [''expected 3 private subnets, found '' @ fmt_d (len privateSubnets)]
                    else errs)
        in errs)"

section \<open>The reporter\<close>

text \<open>
  Standard output is the text written so far; every print returns it extended.
\<close>

abbreviation nl :: char where
  "nl \<equiv> CHR 0x0A"

abbreviation tab :: char where
  "tab \<equiv> CHR 0x09"

definition Println :: "string \<Rightarrow> string \<Rightarrow> string" where
  "Println s out = out @ s @ [nl]"

fun reportCompliance_loop :: "error list \<Rightarrow> string \<Rightarrow> string" where
  "reportCompliance_loop [] out = out"
| "reportCompliance_loop (err # errors) out =
     reportCompliance_loop errors (out @ [tab] @ err @ [nl])"

definition reportCompliance :: "PrismVPC \<Rightarrow> error list \<Rightarrow> string \<Rightarrow> string" where
  "reportCompliance vpc errors out =
     (let out = out @ ''Failed: '' @ VPCID vpc @ '' ('' @ Region (Origin (Meta vpc)) @ '')'' @ [nl];
          out = reportCompliance_loop errors out
      in Println [] out)"

section \<open>The fatal path\<close>

text \<open>
  \<^verbatim>\<open>check\<close> lets a call without error through and turns an error into the text
  \<^verbatim>\<open>msg: err\<close> handed to \<^verbatim>\<open>log.Fatalf\<close>. The standard logger writes its header (the
  time stamp, taken from the world), the text, and a newline unless the text already ends
  with one, to standard error; then the process exits with status 1.
\<close>

record process =
  stdout :: string
  stderr :: string
  exit_status :: nat

definition check :: "error + 'a \<Rightarrow> string \<Rightarrow> string + 'a" where
  "check r msg = (case r of Inl err \<Rightarrow> Inl (msg @ '': '' @ err) | Inr v \<Rightarrow> Inr v)"

definition log_Fatal :: "string \<Rightarrow> string \<Rightarrow> string \<Rightarrow> process" where
  "log_Fatal header out s =
     \<lparr>stdout = out,
      stderr = header @ s @ (if s = [] \<or> last s \<noteq> nl then [nl] else []),
      exit_status = 1\<rparr>"

section \<open>The program\<close>

text \<open>
  What \<^verbatim>\<open>main\<close> asks of the outside: the HTTP request, reading the body, the JSON decoder
  of the standard library, and the logger's header. \<^verbatim>\<open>main\<close> is a function of these and
  of the value of the \<^verbatim>\<open>accountID\<close> flag once the command line is parsed (the empty
  string when the flag is absent). \<open>main_loop\<close> is the loop over \<^verbatim>\<open>accountVPCs\<close>,
  \<open>report_nonEuWest1\<close> the last part of \<^verbatim>\<open>main\<close>: the second filter and the report of
  the VPCs it keeps, with \<open>nonEuWest1_loop\<close> its loop.
\<close>

type_synonym byte = "8 word"

record 'r world =
  http_Get :: "string \<Rightarrow> error + 'r"
  io_ReadAll :: "'r \<Rightarrow> error + byte list"
  json_Unmarshal :: "byte list \<Rightarrow> error + PrismResponse"
  log_header :: string

fun main_loop :: "string \<Rightarrow> PrismVPC list \<Rightarrow> string \<Rightarrow> string" where
  "main_loop accountID [] out = out"
| "main_loop accountID (vpc # vpcs) out =
     (if AccountID vpc \<noteq> accountID then main_loop accountID vpcs out
      else
        let complianceErrs = checkCompliance vpc
        in main_loop accountID vpcs
             (if len complianceErrs > 0 then reportCompliance vpc complianceErrs out else out))"

fun nonEuWest1_loop :: "PrismVPC list \<Rightarrow> string \<Rightarrow> string" where
  "nonEuWest1_loop [] out = out"
| "nonEuWest1_loop (vpc # vpcs) out =
     nonEuWest1_loop vpcs
       (out @ [tab] @ VPCID vpc @ '' ('' @ Region (Origin (Meta vpc)) @ '')'' @ [nl])"

definition report_nonEuWest1 :: "PrismVPC list \<Rightarrow> string \<Rightarrow> string" where
  "report_nonEuWest1 accountVPCs out =
     (let nonEuWest1 = Filter accountVPCs (\<lambda>vpc. Region (Origin (Meta vpc)) \<noteq> ''eu-west-1'')
      in if len nonEuWest1 > 0
         then nonEuWest1_loop nonEuWest1
                (out @ ''The following VPCs were ignored as are in non-standard regions:'' @ [nl])
         else out)"

definition main :: "'r world \<Rightarrow> string \<Rightarrow> process" where
  "main w accountID =
     (let out = (if accountID = [] then Println ''Missing required argument: accountID'' [] else [])
      in case check (http_Get w ''https://prism.gutools.co.uk/vpcs'') ''GET from PRISM failed'' of
           Inl s \<Rightarrow> log_Fatal (log_header w) out s
         | Inr resp \<Rightarrow>
        (case check (io_ReadAll w resp) ''unable to read prism response body'' of
           Inl s \<Rightarrow> log_Fatal (log_header w) out s
         | Inr data \<Rightarrow>
        (case check (json_Unmarshal w data) ''unable to unmarshal'' of
           Inl s \<Rightarrow> log_Fatal (log_header w) out s
         | Inr prismResponse \<Rightarrow>
             let accountVPCs = Filter (VPCs (Data prismResponse)) (\<lambda>vpc. AccountID vpc = accountID);
                 out = main_loop accountID accountVPCs out;
                 out = report_nonEuWest1 accountVPCs out
             in \<lparr>stdout = out, stderr = [], exit_status = 0\<rparr>)))"

section \<open>Example inventory\<close>

text \<open>
  Zero-valued subnets and VPCs with only the fields set that the program reads, the
  four VPCs of the documented scenarios, two VPCs with an empty account id, and worlds in
  which the request, the read or the decoder fails.
\<close>

definition a_subnet :: "bool \<Rightarrow> PrismSubnet" where
  "a_subnet public =
     \<lparr>AvailabilityZone = [], AvailableIPAddressCount = 0, CapacityIPAddressCount = 0,
      CidrBlock = [], OwnerID = [], State = [], SubnetArn = [], SubnetID = [],
      IsPublic = public\<rparr>"

definition a_vpc :: "string \<Rightarrow> string \<Rightarrow> string \<Rightarrow> bool \<Rightarrow> PrismSubnet list \<Rightarrow> PrismVPC" where
  "a_vpc vid account region dflt subnets =
     \<lparr>VPCID = vid, AccountID = account, State = [], IsDefault = dflt, Subnets = subnets,
      Tags = Map.empty, Meta = \<lparr>Origin = \<lparr>Region = region\<rparr>\<rparr>\<rparr>"

definition vpc_1 :: PrismVPC where
  "vpc_1 = a_vpc ''vpc-1'' ''111'' ''eu-west-1'' False
     [a_subnet True, a_subnet False, a_subnet True, a_subnet False, a_subnet True, a_subnet False]"

definition vpc_2 :: PrismVPC where
  "vpc_2 = a_vpc ''vpc-2'' ''111'' ''eu-west-1'' True [a_subnet True]"

definition vpc_3 :: PrismVPC where
  "vpc_3 = a_vpc ''vpc-3'' ''111'' ''eu-west-1'' False
     [a_subnet True, a_subnet False, a_subnet False, a_subnet True, a_subnet False]"

definition vpc_4 :: PrismVPC where
  "vpc_4 = a_vpc ''vpc-4'' ''111'' ''us-east-1'' True [a_subnet False]"

definition vpc_5 :: PrismVPC where
  "vpc_5 = a_vpc ''vpc-5'' ''222'' ''eu-west-1'' False []"

definition inventory :: "PrismVPC list" where
  "inventory = [vpc_1, vpc_2, vpc_5, vpc_3, vpc_4]"

definition good_world :: "unit world" where
  "good_world =
     \<lparr>http_Get = (\<lambda>url. Inr ()),
      io_ReadAll = (\<lambda>body. Inr [0x7B, 0x7D]),
      json_Unmarshal = (\<lambda>data. Inr \<lparr>Data = \<lparr>VPCs = inventory\<rparr>\<rparr>),
      log_header = ''2024/01/01 00:00:00 ''\<rparr>"

definition bad_json_world :: "unit world" where
  "bad_json_world =
     \<lparr>http_Get = (\<lambda>url. Inr ()),
      io_ReadAll = (\<lambda>body. Inr [0x7B]),
      json_Unmarshal = (\<lambda>data. Inl ''unexpected end of JSON input''),
      log_header = ''2024/01/01 00:00:00 ''\<rparr>"

definition vpc_6 :: PrismVPC where
  "vpc_6 = a_vpc ''vpc-6'' [] ''eu-west-1'' True []"

definition vpc_7 :: PrismVPC where
  "vpc_7 = a_vpc ''vpc-7'' [] ''ap-south-1'' False []"

definition unowned_world :: "unit world" where
  "unowned_world =
     \<lparr>http_Get = (\<lambda>url. Inr ()),
      io_ReadAll = (\<lambda>body. Inr [0x7B, 0x7D]),
      json_Unmarshal = (\<lambda>data. Inr \<lparr>Data = \<lparr>VPCs = [vpc_6, vpc_2, vpc_7]\<rparr>\<rparr>),
      log_header = ''2024/01/01 00:00:00 ''\<rparr>"

definition no_network_world :: "unit world" where
  "no_network_world =
     \<lparr>http_Get = (\<lambda>url. Inl ''dial tcp: connection refused''),
      io_ReadAll = (\<lambda>body. Inr []),
      json_Unmarshal = (\<lambda>data. Inr \<lparr>Data = \<lparr>VPCs = []\<rparr>\<rparr>),
      log_header = ''2024/01/01 00:00:00 ''\<rparr>"

definition bad_body_world :: "unit world" where
  "bad_body_world =
     \<lparr>http_Get = (\<lambda>url. Inr ()),
      io_ReadAll = (\<lambda>body. Inl ''unexpected EOF''),
      json_Unmarshal = (\<lambda>data. Inr \<lparr>Data = \<lparr>VPCs = []\<rparr>\<rparr>),
      log_header = ''2024/01/01 00:00:00 ''\<rparr>"

section \<open>Properties of the filter\<close>

lemma Filter_loop_filter: "Filter_loop items pred out = out @ filter pred items"
  by (induction items arbitrary: out) simp_all

lemma Filter_filter: "Filter items pred = filter pred items"
  by (simp add: Filter_def Filter_loop_filter)

text \<open>
  C4. Filtering a VPC sequence by an account identifier \<open>X\<close> gives exactly the VPCs whose
  account id is the same byte string as \<open>X\<close>, in their original order (the result is
  \<^const>\<open>filter\<close> of the sequence, and a subsequence of it), and filtering the result
  again by \<open>X\<close> changes nothing.
\<close>

theorem Filter_by_account:
  "Filter vpcs (\<lambda>vpc. AccountID vpc = X) = filter (\<lambda>vpc. AccountID vpc = X) vpcs
   \<and> subseq (Filter vpcs (\<lambda>vpc. AccountID vpc = X)) vpcs
   \<and> Filter (Filter vpcs (\<lambda>vpc. AccountID vpc = X)) (\<lambda>vpc. AccountID vpc = X)
       = Filter vpcs (\<lambda>vpc. AccountID vpc = X)"
  by (simp add: Filter_filter)

text \<open>
  C6. The public flag splits the subnets of a VPC into two groups that share no subnet,
  together hold every subnet, hold only subnets with the flag true (public) and only
  subnets with the flag false (private), and whose sizes add up to the number of subnets.
\<close>

theorem Subnets_partition:
  "length (Filter (Subnets vpc) (\<lambda>subnet. IsPublic subnet))
     + length (Filter (Subnets vpc) (\<lambda>subnet. \<not> IsPublic subnet)) = length (Subnets vpc)
   \<and> set (Filter (Subnets vpc) (\<lambda>subnet. IsPublic subnet))
       \<inter> set (Filter (Subnets vpc) (\<lambda>subnet. \<not> IsPublic subnet)) = {}
   \<and> set (Filter (Subnets vpc) (\<lambda>subnet. IsPublic subnet))
       \<union> set (Filter (Subnets vpc) (\<lambda>subnet. \<not> IsPublic subnet)) = set (Subnets vpc)
   \<and> list_all (\<lambda>subnet. IsPublic subnet) (Filter (Subnets vpc) (\<lambda>subnet. IsPublic subnet))
   \<and> list_all (\<lambda>subnet. \<not> IsPublic subnet) (Filter (Subnets vpc) (\<lambda>subnet. \<not> IsPublic subnet))"
proof -
  have "length (filter IsPublic (Subnets vpc))
          + length (filter (\<lambda>subnet. \<not> IsPublic subnet) (Subnets vpc)) = length (Subnets vpc)"
    by (rule sum_length_filter_compl)
  moreover have "set (filter IsPublic (Subnets vpc))
          \<inter> set (filter (\<lambda>subnet. \<not> IsPublic subnet) (Subnets vpc)) = {}"
    by auto
  moreover have "set (filter IsPublic (Subnets vpc))
          \<union> set (filter (\<lambda>subnet. \<not> IsPublic subnet) (Subnets vpc)) = set (Subnets vpc)"
    by auto
  ultimately show ?thesis
    by (simp add: Filter_filter list_all_iff)
qed

section \<open>Properties of the decimal format\<close>

lemma len_eq_3: "len xs \<noteq> 3 \<longleftrightarrow> length xs \<noteq> 3"
  by (simp add: len_def)

lemma len_pos: "0 < len xs \<longleftrightarrow> xs \<noteq> []"
  by (simp add: len_def)

lemma fmt_d_len: "fmt_d (len xs) = fmtUint (length xs)"
  by (simp add: fmt_d_def len_def)

lemma digit_value_digit: "d < 10 \<Longrightarrow> digit_value (digit d) = d"
  by (auto simp: digit_value_def digit_def less_Suc_eq numeral_eq_Suc nth_Cons')

lemma decimal_value_snoc: "decimal_value (s @ [c]) = 10 * decimal_value s + digit_value c"
  by (simp add: decimal_value_def)

lemma decimal_value_fmtUint: "decimal_value (fmtUint u) = u"
proof (induction u rule: fmtUint.induct)
  case (1 u)
  show ?case
  proof (cases "u < 10")
    case True
    then show ?thesis
      by (simp add: fmtUint.simps [of u] decimal_value_def digit_value_digit)
  next
    case False
    with 1 have "decimal_value (fmtUint (u div 10)) = u div 10" by simp
    with False show ?thesis
      by (simp add: fmtUint.simps [of u] decimal_value_snoc digit_value_digit)
  qed
qed

section \<open>Properties of the compliance evaluator\<close>

text \<open>The evaluator, with the library filter and the counts as natural numbers.\<close>

lemma checkCompliance_unfold:
  "checkCompliance vpc =
     (if Region (Origin (Meta vpc)) \<noteq> ''eu-west-1'' then []
      else if IsDefault vpc then [''is Default VPC'']
      else (if length (filter IsPublic (Subnets vpc)) \<noteq> 3
            then [''expected 3 public subnets, found '' @
                  fmtUint (length (filter IsPublic (Subnets vpc)))]
            else []) @
           (if length (filter (\<lambda>subnet. \<not> IsPublic subnet) (Subnets vpc)) \<noteq> 3
            then [''expected 3 private subnets, found '' @
                  fmtUint (length (filter (\<lambda>subnet. \<not> IsPublic subnet) (Subnets vpc)))]
            else []))"
  by (simp add: checkCompliance_def Let_def errors_New_def Filter_filter len_eq_3 fmt_d_len)

lemma checkCompliance_nonempty_region:
  "checkCompliance vpc \<noteq> [] \<Longrightarrow> Region (Origin (Meta vpc)) = ''eu-west-1''"
  by (cases "Region (Origin (Meta vpc)) = ''eu-west-1''") (simp_all add: checkCompliance_unfold)

text \<open>
  C1. For a VPC in region \<^verbatim>\<open>eu-west-1\<close> that is not a default VPC, with \<open>pub\<close> the number
  of subnets whose public flag is true and \<open>priv\<close> the number of those whose flag is
  false: the number of violations is (1 if \<open>pub\<close> is not 3, else 0) plus (1 if \<open>priv\<close> is
  not 3, else 0); there is no violation exactly when both counts are 3; the violation
  about public subnets comes before the one about private subnets; and each message
  names the expected count 3 and ends with the decimal numeral of the count found
  (read back as a number, the numeral is that count).
\<close>

theorem checkCompliance_subnet_counts:
  fixes vpc :: PrismVPC
  defines "pub \<equiv> length (filter (\<lambda>subnet. IsPublic subnet) (Subnets vpc))"
    and "priv \<equiv> length (filter (\<lambda>subnet. \<not> IsPublic subnet) (Subnets vpc))"
  assumes "Region (Origin (Meta vpc)) = ''eu-west-1''" and "\<not> IsDefault vpc"
  shows "length (checkCompliance vpc) = (if pub \<noteq> 3 then 1 else 0) + (if priv \<noteq> 3 then 1 else 0)
    \<and> (checkCompliance vpc = [] \<longleftrightarrow> pub = 3 \<and> priv = 3)
    \<and> checkCompliance vpc =
        (if pub \<noteq> 3 then [''expected 3 public subnets, found '' @ fmt_d (int pub)] else []) @
        (if priv \<noteq> 3 then [''expected 3 private subnets, found '' @ fmt_d (int priv)] else [])
    \<and> decimal_value (fmt_d (int pub)) = pub \<and> decimal_value (fmt_d (int priv)) = priv"
  using assms by (simp add: checkCompliance_unfold fmt_d_def decimal_value_fmtUint)

theorem checkCompliance_subnet_counts_witness:
  "Region (Origin (Meta vpc_3)) = ''eu-west-1'' \<and> \<not> IsDefault vpc_3
   \<and> checkCompliance vpc_3 = [''expected 3 public subnets, found 2'']"
  using checkCompliance_subnet_counts [of vpc_3]
  by (simp add: vpc_3_def a_vpc_def a_subnet_def fmt_d_def fmtUint.simps digit_def)

text \<open>
  C2. A VPC whose origin region is not the string \<^verbatim>\<open>eu-west-1\<close> gets an empty violation
  list, and still does when its default flag and its subnets are replaced by any others.
\<close>

theorem checkCompliance_other_region:
  "Region (Origin (Meta vpc)) \<noteq> ''eu-west-1'' \<Longrightarrow>
     checkCompliance vpc = [] \<and>
     checkCompliance (vpc\<lparr>IsDefault := dflt, Subnets := subnets\<rparr>) = []"
  by (simp add: checkCompliance_def)

theorem checkCompliance_other_region_witness:
  "Region (Origin (Meta vpc_4)) \<noteq> ''eu-west-1'' \<and> IsDefault vpc_4 \<and> checkCompliance vpc_4 = []
   \<and> checkCompliance (vpc_4\<lparr>IsDefault := False, Subnets := []\<rparr>) = []"
  using checkCompliance_other_region [where vpc = vpc_4 and dflt = False and subnets = "[]"]
  by (simp add: vpc_4_def a_vpc_def)

text \<open>
  C3. A default VPC in region \<^verbatim>\<open>eu-west-1\<close> gets exactly one violation, with the reason
  \<^verbatim>\<open>is Default VPC\<close>, and still does when its subnets are replaced by any others: the
  subnets are not counted.
\<close>

theorem checkCompliance_default_vpc:
  "Region (Origin (Meta vpc)) = ''eu-west-1'' \<Longrightarrow> IsDefault vpc \<Longrightarrow>
     checkCompliance vpc = [''is Default VPC''] \<and>
     checkCompliance (vpc\<lparr>Subnets := subnets\<rparr>) = [''is Default VPC'']"
  by (simp add: checkCompliance_def errors_New_def)

theorem checkCompliance_default_vpc_witness:
  "Region (Origin (Meta vpc_2)) = ''eu-west-1'' \<and> IsDefault vpc_2
   \<and> checkCompliance vpc_2 = [''is Default VPC'']
   \<and> checkCompliance (vpc_2\<lparr>Subnets := []\<rparr>) = [''is Default VPC'']"
  using checkCompliance_default_vpc [where vpc = vpc_2 and subnets = "[]"]
  by (simp add: vpc_2_def a_vpc_def)

text \<open>
  C9. Whatever the region, the default flag and the subnets of a VPC are, the evaluator
  returns at most two violations.
\<close>

theorem checkCompliance_at_most_two: "length (checkCompliance vpc) \<le> 2"
  by (simp add: checkCompliance_unfold)

section \<open>Properties of the reporter\<close>

lemma reportCompliance_loop_concat:
  "reportCompliance_loop errors out = out @ concat (map (\<lambda>err. tab # err @ [nl]) errors)"
  by (induction errors arbitrary: out) simp_all

lemma reportCompliance_text:
  "reportCompliance vpc errors out =
     out @ ''Failed: '' @ VPCID vpc @ '' ('' @ Region (Origin (Meta vpc)) @ '')'' @ [nl]
       @ concat (map (\<lambda>err. tab # err @ [nl]) errors) @ [nl]"
  by (simp add: reportCompliance_def Println_def reportCompliance_loop_concat)

lemma reportCompliance_out:
  "reportCompliance vpc errors out = out @ reportCompliance vpc errors []"
  by (simp add: reportCompliance_text)

lemma main_loop_concat:
  "main_loop accountID vpcs out =
     out @ concat (map (\<lambda>vpc. reportCompliance vpc (checkCompliance vpc) [])
                    (filter (\<lambda>vpc. AccountID vpc = accountID \<and> checkCompliance vpc \<noteq> []) vpcs))"
proof (induction vpcs arbitrary: out)
  case Nil
  show ?case by simp
next
  case (Cons vpc vpcs)
  show ?case
    by (simp add: Cons.IH len_pos Let_def reportCompliance_out [of vpc _ out])
qed

lemma nonEuWest1_loop_concat:
  "nonEuWest1_loop vpcs out =
     out @ concat (map (\<lambda>vpc. tab # VPCID vpc @ '' ('' @ Region (Origin (Meta vpc)) @ '')'' @ [nl]) vpcs)"
  by (induction vpcs arbitrary: out) simp_all

text \<open>
  C10. The loop of \<^verbatim>\<open>main\<close> prints one block per VPC of the account whose evaluator result
  is not empty, by \<^verbatim>\<open>reportCompliance\<close>, and nothing else. A VPC with a non-empty result
  is in region \<^verbatim>\<open>eu-west-1\<close>, so the header of its block is
  \<^verbatim>\<open>Failed: <id> (eu-west-1)\<close>.
\<close>

theorem main_loop_headers_canonical:
  "main_loop accountID vpcs out =
     out @ concat (map (\<lambda>vpc. reportCompliance vpc (checkCompliance vpc) [])
                    (filter (\<lambda>vpc. AccountID vpc = accountID \<and> checkCompliance vpc \<noteq> []) vpcs))
   \<and> (checkCompliance vpc \<noteq> [] \<longrightarrow>
        Region (Origin (Meta vpc)) = ''eu-west-1''
        \<and> reportCompliance vpc (checkCompliance vpc) out =
            out @ ''Failed: '' @ VPCID vpc @ '' (eu-west-1)'' @ [nl]
              @ concat (map (\<lambda>err. tab # err @ [nl]) (checkCompliance vpc)) @ [nl])"
proof -
  have "reportCompliance vpc (checkCompliance vpc) out =
            out @ ''Failed: '' @ VPCID vpc @ '' (eu-west-1)'' @ [nl]
              @ concat (map (\<lambda>err. tab # err @ [nl]) (checkCompliance vpc)) @ [nl]"
    if "checkCompliance vpc \<noteq> []"
    using checkCompliance_nonempty_region [OF that] by (simp add: reportCompliance_text)
  then show ?thesis
    by (simp add: main_loop_concat checkCompliance_nonempty_region)
qed

theorem main_loop_headers_canonical_witness:
  "checkCompliance vpc_2 \<noteq> []
   \<and> main_loop ''111'' [vpc_4, vpc_2] [] =
       ''Failed: vpc-2 (eu-west-1)'' @ [nl, tab] @ ''is Default VPC'' @ [nl, nl]"
  using main_loop_headers_canonical
    [where accountID = "''111''" and vpcs = "[vpc_4, vpc_2]" and out = "[]" and vpc = vpc_2]
  by (simp add: vpc_2_def vpc_4_def a_vpc_def checkCompliance_def errors_New_def)

section \<open>Properties of the program\<close>

lemma report_nonEuWest1_text:
  "report_nonEuWest1 accountVPCs out =
     out @ (if filter (\<lambda>vpc. Region (Origin (Meta vpc)) \<noteq> ''eu-west-1'') accountVPCs = [] then []
            else ''The following VPCs were ignored as are in non-standard regions:'' @ [nl]
              @ concat (map (\<lambda>vpc. tab # VPCID vpc @ '' ('' @ Region (Origin (Meta vpc)) @ '')'' @ [nl])
                  (filter (\<lambda>vpc. Region (Origin (Meta vpc)) \<noteq> ''eu-west-1'') accountVPCs)))"
  by (simp add: report_nonEuWest1_def Let_def Filter_filter len_pos nonEuWest1_loop_concat)

lemma main_loop_account:
  "main_loop accountID (filter (\<lambda>vpc. AccountID vpc = accountID) vpcs) out =
     out @ concat (map (\<lambda>vpc. reportCompliance vpc (checkCompliance vpc) [])
                    (filter (\<lambda>vpc. checkCompliance vpc \<noteq> [])
                       (filter (\<lambda>vpc. AccountID vpc = accountID) vpcs)))"
proof -
  have "filter (\<lambda>vpc. AccountID vpc = accountID \<and> checkCompliance vpc \<noteq> [])
          (filter (\<lambda>vpc. AccountID vpc = accountID) vpcs)
        = filter (\<lambda>vpc. checkCompliance vpc \<noteq> []) (filter (\<lambda>vpc. AccountID vpc = accountID) vpcs)"
    by (induction vpcs) simp_all
  then show ?thesis
    by (simp add: main_loop_concat)
qed

lemma main_decoded:
  assumes "http_Get w ''https://prism.gutools.co.uk/vpcs'' = Inr resp"
    and "io_ReadAll w resp = Inr data"
    and "json_Unmarshal w data = Inr prismResponse"
  shows "main w accountID =
     \<lparr>stdout =
        report_nonEuWest1 (filter (\<lambda>vpc. AccountID vpc = accountID) (VPCs (Data prismResponse)))
          (main_loop accountID (filter (\<lambda>vpc. AccountID vpc = accountID) (VPCs (Data prismResponse)))
             (if accountID = [] then ''Missing required argument: accountID'' @ [nl] else [])),
      stderr = [], exit_status = 0\<rparr>"
  using assms by (simp add: main_def check_def Let_def Println_def Filter_filter)

lemma main_exit_status:
  "exit_status (main w accountID) =
     (case http_Get w ''https://prism.gutools.co.uk/vpcs'' of Inl e \<Rightarrow> 1
      | Inr resp \<Rightarrow> (case io_ReadAll w resp of Inl e \<Rightarrow> 1
      | Inr data \<Rightarrow> (case json_Unmarshal w data of Inl e \<Rightarrow> 1 | Inr r \<Rightarrow> 0)))"
  by (simp add: main_def check_def Let_def log_Fatal_def split: sum.splits)

lemma main_stderr:
  "stderr (main w accountID) = stderr (main w accountID')"
  by (simp add: main_def check_def Let_def log_Fatal_def split: sum.splits)

lemma main_stdout_warning:
  "\<exists>rest. stdout (main w []) = ''Missing required argument: accountID'' @ [nl] @ rest"
  by (simp add: main_def check_def Let_def log_Fatal_def Println_def Filter_filter
      main_loop_concat report_nonEuWest1_text split: sum.splits)

text \<open>
  C8. When the request and the read succeed and the decoder rejects the bytes read (they
  are not a JSON document of the response's shape), \<^verbatim>\<open>main\<close> ends with exit status 1,
  which is not zero; standard error holds the logger's header, the context message
  \<^verbatim>\<open>unable to unmarshal\<close>, a colon and the decoder's error; and standard output holds
  nothing but the warning about a missing account: no \<^verbatim>\<open>Failed\<close> block and no report of
  ignored regions.
\<close>

theorem main_decode_failure_fatal:
  assumes "http_Get w ''https://prism.gutools.co.uk/vpcs'' = Inr resp"
    and "io_ReadAll w resp = Inr data"
    and "json_Unmarshal w data = Inl cause"
  shows "main w accountID =
     \<lparr>stdout = (if accountID = [] then ''Missing required argument: accountID'' @ [nl] else []),
      stderr = log_header w @ ''unable to unmarshal: '' @ cause
                 @ (if cause \<noteq> [] \<and> last cause = nl then [] else [nl]),
      exit_status = 1\<rparr>
    \<and> exit_status (main w accountID) \<noteq> 0"
  using assms by (simp add: main_def check_def Let_def Println_def log_Fatal_def)

theorem main_decode_failure_fatal_witness:
  "http_Get bad_json_world ''https://prism.gutools.co.uk/vpcs'' = Inr ()
   \<and> io_ReadAll bad_json_world () = Inr [0x7B]
   \<and> json_Unmarshal bad_json_world [0x7B] = Inl ''unexpected end of JSON input''
   \<and> main bad_json_world ''111'' =
       \<lparr>stdout = [],
        stderr = ''2024/01/01 00:00:00 unable to unmarshal: unexpected end of JSON input'' @ [nl],
        exit_status = 1\<rparr>"
  using main_decode_failure_fatal [where w = bad_json_world and resp = "()" and data = "[0x7B]"
      and cause = "''unexpected end of JSON input''" and accountID = "''111''"]
  by (simp add: bad_json_world_def)

lemma main_fetch_failed:
  assumes "http_Get w ''https://prism.gutools.co.uk/vpcs'' = Inl cause"
  shows "main w accountID =
     \<lparr>stdout = (if accountID = [] then ''Missing required argument: accountID'' @ [nl] else []),
      stderr = log_header w @ ''GET from PRISM failed: '' @ cause
                 @ (if cause \<noteq> [] \<and> last cause = nl then [] else [nl]),
      exit_status = 1\<rparr>"
  using assms by (simp add: main_def check_def Let_def Println_def log_Fatal_def)

lemma main_read_failed:
  assumes "http_Get w ''https://prism.gutools.co.uk/vpcs'' = Inr resp"
    and "io_ReadAll w resp = Inl cause"
  shows "main w accountID =
     \<lparr>stdout = (if accountID = [] then ''Missing required argument: accountID'' @ [nl] else []),
      stderr = log_header w @ ''unable to read prism response body: '' @ cause
                 @ (if cause \<noteq> [] \<and> last cause = nl then [] else [nl]),
      exit_status = 1\<rparr>"
  using assms by (simp add: main_def check_def Let_def Println_def log_Fatal_def)

lemma main_unmarshal_failed:
  assumes "http_Get w ''https://prism.gutools.co.uk/vpcs'' = Inr resp"
    and "io_ReadAll w resp = Inr data"
    and "json_Unmarshal w data = Inl cause"
  shows "main w accountID =
     \<lparr>stdout = (if accountID = [] then ''Missing required argument: accountID'' @ [nl] else []),
      stderr = log_header w @ ''unable to unmarshal: '' @ cause
                 @ (if cause \<noteq> [] \<and> last cause = nl then [] else [nl]),
      exit_status = 1\<rparr>"
  using assms by (simp add: main_def check_def Let_def Println_def log_Fatal_def)

lemma main_decoded_text:
  assumes "http_Get w ''https://prism.gutools.co.uk/vpcs'' = Inr resp"
    and "io_ReadAll w resp = Inr data"
    and "json_Unmarshal w data = Inr prismResponse"
  shows "main w accountID =
     \<lparr>stdout =
        (if accountID = [] then ''Missing required argument: accountID'' @ [nl] else [])
        @ concat (map (\<lambda>vpc. reportCompliance vpc (checkCompliance vpc) [])
            (filter (\<lambda>vpc. checkCompliance vpc \<noteq> [])
               (Filter (VPCs (Data prismResponse)) (\<lambda>vpc. AccountID vpc = accountID))))
        @ (if filter (\<lambda>vpc. Region (Origin (Meta vpc)) \<noteq> ''eu-west-1'')
                (Filter (VPCs (Data prismResponse)) (\<lambda>vpc. AccountID vpc = accountID)) = [] then []
           else ''The following VPCs were ignored as are in non-standard regions:'' @ [nl]
             @ concat (map (\<lambda>vpc. tab # VPCID vpc @ '' ('' @ Region (Origin (Meta vpc)) @ '')'' @ [nl])
                 (filter (\<lambda>vpc. Region (Origin (Meta vpc)) \<noteq> ''eu-west-1'')
                    (Filter (VPCs (Data prismResponse)) (\<lambda>vpc. AccountID vpc = accountID))))),
      stderr = [], exit_status = 0\<rparr>"
  using main_decoded [OF assms, of accountID]
  by (simp add: report_nonEuWest1_text main_loop_account Filter_filter)

text \<open>
  C7. With the empty account identifier, standard output starts with the warning
  \<^verbatim>\<open>Missing required argument: accountID\<close>, and the program goes on to the request, the
  read, the decoder and the account filter as it does with any identifier: exit status
  and standard error are those of a run with an identifier. After the warning, a failing
  request, read or decoder ends the run with status 1 and its own diagnostic; otherwise
  the inventory is filtered by the empty identifier, the run reports the VPCs that filter
  keeps and ends with status 0. Filtering VPCs whose account ids are all non-empty by the
  empty identifier yields the empty sequence, so a run over such an inventory prints the
  warning only.
\<close>

theorem main_missing_accountID:
  fixes w :: "'r world" and prismResponse :: PrismResponse
  defines "accountVPCs \<equiv> Filter (VPCs (Data prismResponse)) (\<lambda>vpc. AccountID vpc = [])"
  defines "failed \<equiv> filter (\<lambda>vpc. checkCompliance vpc \<noteq> []) accountVPCs"
    and "ignored \<equiv> filter (\<lambda>vpc. Region (Origin (Meta vpc)) \<noteq> ''eu-west-1'') accountVPCs"
  shows
  "prefix (''Missing required argument: accountID'' @ [nl]) (stdout (main w []))
   \<and> exit_status (main w []) = exit_status (main w accountID)
   \<and> stderr (main w []) = stderr (main w accountID)
   \<and> ((\<forall>vpc \<in> set vpcs. AccountID vpc \<noteq> []) \<longrightarrow> Filter vpcs (\<lambda>vpc. AccountID vpc = []) = [])
   \<and> (http_Get w ''https://prism.gutools.co.uk/vpcs'' = Inr resp
        \<and> io_ReadAll w resp = Inr data
        \<and> json_Unmarshal w data = Inr prismResponse
        \<and> (\<forall>vpc \<in> set (VPCs (Data prismResponse)). AccountID vpc \<noteq> []) \<longrightarrow>
      main w [] =
        \<lparr>stdout = ''Missing required argument: accountID'' @ [nl], stderr = [], exit_status = 0\<rparr>)
   \<and> (http_Get w ''https://prism.gutools.co.uk/vpcs'' = Inl cause \<longrightarrow>
      main w [] =
        \<lparr>stdout = ''Missing required argument: accountID'' @ [nl],
         stderr = log_header w @ ''GET from PRISM failed: '' @ cause
                    @ (if cause \<noteq> [] \<and> last cause = nl then [] else [nl]),
         exit_status = 1\<rparr>)
   \<and> (http_Get w ''https://prism.gutools.co.uk/vpcs'' = Inr resp
        \<and> io_ReadAll w resp = Inl cause \<longrightarrow>
      main w [] =
        \<lparr>stdout = ''Missing required argument: accountID'' @ [nl],
         stderr = log_header w @ ''unable to read prism response body: '' @ cause
                    @ (if cause \<noteq> [] \<and> last cause = nl then [] else [nl]),
         exit_status = 1\<rparr>)
   \<and> (http_Get w ''https://prism.gutools.co.uk/vpcs'' = Inr resp
        \<and> io_ReadAll w resp = Inr data
        \<and> json_Unmarshal w data = Inl cause \<longrightarrow>
      main w [] =
        \<lparr>stdout = ''Missing required argument: accountID'' @ [nl],
         stderr = log_header w @ ''unable to unmarshal: '' @ cause
                    @ (if cause \<noteq> [] \<and> last cause = nl then [] else [nl]),
         exit_status = 1\<rparr>)
   \<and> (http_Get w ''https://prism.gutools.co.uk/vpcs'' = Inr resp
        \<and> io_ReadAll w resp = Inr data
        \<and> json_Unmarshal w data = Inr prismResponse \<longrightarrow>
      main w [] =
        \<lparr>stdout = ''Missing required argument: accountID'' @ [nl]
           @ concat (map (\<lambda>vpc. reportCompliance vpc (checkCompliance vpc) []) failed)
           @ (if ignored = [] then []
              else ''The following VPCs were ignored as are in non-standard regions:'' @ [nl]
                @ concat (map (\<lambda>vpc. tab # VPCID vpc @ '' ('' @ Region (Origin (Meta vpc)) @ '')'' @ [nl])
                    ignored)),
         stderr = [], exit_status = 0\<rparr>)"
proof -
  have empty: "filter (\<lambda>vpc. AccountID vpc = []) xs = []" if "\<forall>vpc \<in> set xs. AccountID vpc \<noteq> []" for xs
    using that by (induction xs) simp_all
  obtain rest where "stdout (main w []) = ''Missing required argument: accountID'' @ [nl] @ rest"
    using main_stdout_warning by blast
  then have c1: "prefix (''Missing required argument: accountID'' @ [nl]) (stdout (main w []))"
    by (metis append.assoc prefixI)
  have c2: "exit_status (main w []) = exit_status (main w accountID)"
    by (simp add: main_exit_status)
  have c3: "stderr (main w []) = stderr (main w accountID)"
    by (rule main_stderr)
  have c4: "Filter vpcs (\<lambda>vpc. AccountID vpc = []) = []" if "\<forall>vpc \<in> set vpcs. AccountID vpc \<noteq> []"
    using empty [OF that] by (simp add: Filter_filter)
  have c5: "main w [] =
        \<lparr>stdout = ''Missing required argument: accountID'' @ [nl], stderr = [], exit_status = 0\<rparr>"
    if "http_Get w ''https://prism.gutools.co.uk/vpcs'' = Inr resp"
      and "io_ReadAll w resp = Inr data"
      and "json_Unmarshal w data = Inr prismResponse"
      and "\<forall>vpc \<in> set (VPCs (Data prismResponse)). AccountID vpc \<noteq> []"
    using main_decoded [OF that(1,2,3), of "[]"] empty [OF that(4)]
    by (simp add: report_nonEuWest1_text)
  have c6: "main w [] =
        \<lparr>stdout = ''Missing required argument: accountID'' @ [nl],
         stderr = log_header w @ ''GET from PRISM failed: '' @ cause
                    @ (if cause \<noteq> [] \<and> last cause = nl then [] else [nl]),
         exit_status = 1\<rparr>"
    if "http_Get w ''https://prism.gutools.co.uk/vpcs'' = Inl cause"
    using main_fetch_failed [OF that, of "[]"] by simp
  have c7: "main w [] =
        \<lparr>stdout = ''Missing required argument: accountID'' @ [nl],
         stderr = log_header w @ ''unable to read prism response body: '' @ cause
                    @ (if cause \<noteq> [] \<and> last cause = nl then [] else [nl]),
         exit_status = 1\<rparr>"
    if "http_Get w ''https://prism.gutools.co.uk/vpcs'' = Inr resp" and "io_ReadAll w resp = Inl cause"
    using main_read_failed [OF that, of "[]"] by simp
  have c8: "main w [] =
        \<lparr>stdout = ''Missing required argument: accountID'' @ [nl],
         stderr = log_header w @ ''unable to unmarshal: '' @ cause
                    @ (if cause \<noteq> [] \<and> last cause = nl then [] else [nl]),
         exit_status = 1\<rparr>"
    if "http_Get w ''https://prism.gutools.co.uk/vpcs'' = Inr resp" and "io_ReadAll w resp = Inr data"
      and "json_Unmarshal w data = Inl cause"
    using main_unmarshal_failed [OF that, of "[]"] by simp
  have c9: "main w [] =
        \<lparr>stdout = ''Missing required argument: accountID'' @ [nl]
           @ concat (map (\<lambda>vpc. reportCompliance vpc (checkCompliance vpc) []) failed)
           @ (if ignored = [] then []
              else ''The following VPCs were ignored as are in non-standard regions:'' @ [nl]
                @ concat (map (\<lambda>vpc. tab # VPCID vpc @ '' ('' @ Region (Origin (Meta vpc)) @ '')'' @ [nl])
                    ignored)),
         stderr = [], exit_status = 0\<rparr>"
    if "http_Get w ''https://prism.gutools.co.uk/vpcs'' = Inr resp" and "io_ReadAll w resp = Inr data"
      and "json_Unmarshal w data = Inr prismResponse"
    using main_decoded_text [OF that, of "[]"]
    by (simp add: failed_def ignored_def accountVPCs_def)
  from c1 c2 c3 c4 c5 c6 c7 c8 c9 show ?thesis
    by blast
qed

theorem main_missing_accountID_witness:
  "list_all (\<lambda>vpc. AccountID vpc \<noteq> []) inventory
   \<and> Filter inventory (\<lambda>vpc. AccountID vpc = []) = []
   \<and> main good_world [] =
        \<lparr>stdout = ''Missing required argument: accountID'' @ [nl], stderr = [], exit_status = 0\<rparr>
   \<and> http_Get no_network_world ''https://prism.gutools.co.uk/vpcs'' = Inl ''dial tcp: connection refused''
   \<and> main no_network_world [] =
        \<lparr>stdout = ''Missing required argument: accountID'' @ [nl],
         stderr = ''2024/01/01 00:00:00 GET from PRISM failed: dial tcp: connection refused'' @ [nl],
         exit_status = 1\<rparr>
   \<and> io_ReadAll bad_body_world () = Inl ''unexpected EOF''
   \<and> main bad_body_world [] =
        \<lparr>stdout = ''Missing required argument: accountID'' @ [nl],
         stderr = ''2024/01/01 00:00:00 unable to read prism response body: unexpected EOF'' @ [nl],
         exit_status = 1\<rparr>
   \<and> json_Unmarshal bad_json_world [0x7B] = Inl ''unexpected end of JSON input''
   \<and> main bad_json_world [] =
        \<lparr>stdout = ''Missing required argument: accountID'' @ [nl],
         stderr = ''2024/01/01 00:00:00 unable to unmarshal: unexpected end of JSON input'' @ [nl],
         exit_status = 1\<rparr>
   \<and> json_Unmarshal unowned_world [0x7B, 0x7D] = Inr \<lparr>Data = \<lparr>VPCs = [vpc_6, vpc_2, vpc_7]\<rparr>\<rparr>
   \<and> main unowned_world [] =
        \<lparr>stdout = ''Missing required argument: accountID'' @ [nl]
           @ ''Failed: vpc-6 (eu-west-1)'' @ [nl, tab] @ ''is Default VPC'' @ [nl, nl]
           @ ''The following VPCs were ignored as are in non-standard regions:'' @ [nl, tab]
           @ ''vpc-7 (ap-south-1)'' @ [nl],
         stderr = [], exit_status = 0\<rparr>"
proof -
  have good: "list_all (\<lambda>vpc. AccountID vpc \<noteq> []) inventory
      \<and> Filter inventory (\<lambda>vpc. AccountID vpc = []) = []
      \<and> main good_world [] =
        \<lparr>stdout = ''Missing required argument: accountID'' @ [nl], stderr = [], exit_status = 0\<rparr>"
    using main_missing_accountID [where w = good_world and vpcs = inventory and resp = "()"
      and data = "[0x7B, 0x7D]" and prismResponse = "\<lparr>Data = \<lparr>VPCs = inventory\<rparr>\<rparr>"
      and accountID = "[]" and cause = "[]"]
    by (auto simp: good_world_def inventory_def vpc_1_def vpc_2_def vpc_3_def vpc_4_def vpc_5_def
        a_vpc_def)
  have no_network: "http_Get no_network_world ''https://prism.gutools.co.uk/vpcs''
        = Inl ''dial tcp: connection refused''
      \<and> main no_network_world [] =
        \<lparr>stdout = ''Missing required argument: accountID'' @ [nl],
         stderr = ''2024/01/01 00:00:00 GET from PRISM failed: dial tcp: connection refused'' @ [nl],
         exit_status = 1\<rparr>"
    using main_missing_accountID [where w = no_network_world and vpcs = "[]" and resp = "()"
      and data = "[]" and prismResponse = "\<lparr>Data = \<lparr>VPCs = []\<rparr>\<rparr>"
      and accountID = "[]" and cause = "''dial tcp: connection refused''"]
    by (auto simp: no_network_world_def)
  have bad_body: "io_ReadAll bad_body_world () = Inl ''unexpected EOF''
      \<and> main bad_body_world [] =
        \<lparr>stdout = ''Missing required argument: accountID'' @ [nl],
         stderr = ''2024/01/01 00:00:00 unable to read prism response body: unexpected EOF'' @ [nl],
         exit_status = 1\<rparr>"
    using main_missing_accountID [where w = bad_body_world and vpcs = "[]" and resp = "()"
      and data = "[]" and prismResponse = "\<lparr>Data = \<lparr>VPCs = []\<rparr>\<rparr>"
      and accountID = "[]" and cause = "''unexpected EOF''"]
    by (auto simp: bad_body_world_def)
  have bad_json: "json_Unmarshal bad_json_world [0x7B] = Inl ''unexpected end of JSON input''
      \<and> main bad_json_world [] =
        \<lparr>stdout = ''Missing required argument: accountID'' @ [nl],
         stderr = ''2024/01/01 00:00:00 unable to unmarshal: unexpected end of JSON input'' @ [nl],
         exit_status = 1\<rparr>"
    using main_missing_accountID [where w = bad_json_world and vpcs = "[]" and resp = "()"
      and data = "[0x7B]" and prismResponse = "\<lparr>Data = \<lparr>VPCs = []\<rparr>\<rparr>"
      and accountID = "[]" and cause = "''unexpected end of JSON input''"]
    by (auto simp: bad_json_world_def)
  have unowned: "json_Unmarshal unowned_world [0x7B, 0x7D] = Inr \<lparr>Data = \<lparr>VPCs = [vpc_6, vpc_2, vpc_7]\<rparr>\<rparr>
      \<and> main unowned_world [] =
        \<lparr>stdout = ''Missing required argument: accountID'' @ [nl]
           @ ''Failed: vpc-6 (eu-west-1)'' @ [nl, tab] @ ''is Default VPC'' @ [nl, nl]
           @ ''The following VPCs were ignored as are in non-standard regions:'' @ [nl, tab]
           @ ''vpc-7 (ap-south-1)'' @ [nl],
         stderr = [], exit_status = 0\<rparr>"
    using main_missing_accountID [where w = unowned_world and vpcs = "[]" and resp = "()"
      and data = "[0x7B, 0x7D]" and prismResponse = "\<lparr>Data = \<lparr>VPCs = [vpc_6, vpc_2, vpc_7]\<rparr>\<rparr>"
      and accountID = "[]" and cause = "[]"]
    by (auto simp: unowned_world_def vpc_2_def vpc_6_def vpc_7_def a_vpc_def checkCompliance_def
        errors_New_def Filter_def reportCompliance_def Println_def)
  from good no_network bad_body bad_json unowned show ?thesis
    by blast
qed

text \<open>
  C5. After a successful fetch and decode, standard output is the warning (if any), then
  one block per VPC of the account whose evaluator result is not empty, then the report
  of ignored VPCs, which lists, with id and region, exactly the VPCs of the account whose
  region is not \<^verbatim>\<open>eu-west-1\<close>, whatever the evaluator returned. No VPC is in both groups:
  a VPC whose region is not \<^verbatim>\<open>eu-west-1\<close> has an empty evaluator result.
\<close>

theorem main_reports_disjoint:
  fixes w :: "'r world" and prismResponse :: PrismResponse and accountID :: string
  defines "accountVPCs \<equiv> filter (\<lambda>vpc. AccountID vpc = accountID) (VPCs (Data prismResponse))"
  defines "failed \<equiv> filter (\<lambda>vpc. checkCompliance vpc \<noteq> []) accountVPCs"
    and "ignored \<equiv> filter (\<lambda>vpc. Region (Origin (Meta vpc)) \<noteq> ''eu-west-1'') accountVPCs"
  assumes "http_Get w ''https://prism.gutools.co.uk/vpcs'' = Inr resp"
    and "io_ReadAll w resp = Inr data"
    and "json_Unmarshal w data = Inr prismResponse"
  shows "stdout (main w accountID) =
      (if accountID = [] then ''Missing required argument: accountID'' @ [nl] else [])
      @ concat (map (\<lambda>vpc. reportCompliance vpc (checkCompliance vpc) []) failed)
      @ (if ignored = [] then []
         else ''The following VPCs were ignored as are in non-standard regions:'' @ [nl]
           @ concat (map (\<lambda>vpc. tab # VPCID vpc @ '' ('' @ Region (Origin (Meta vpc)) @ '')'' @ [nl]) ignored))
    \<and> set failed \<inter> set ignored = {}
    \<and> (\<forall>vpc. Region (Origin (Meta vpc)) \<noteq> ''eu-west-1'' \<longrightarrow> checkCompliance vpc = [])"
proof -
  have "set failed \<inter> set ignored = {}"
    using checkCompliance_nonempty_region by (auto simp: failed_def ignored_def)
  moreover have "\<forall>vpc. Region (Origin (Meta vpc)) \<noteq> ''eu-west-1'' \<longrightarrow> checkCompliance vpc = []"
    using checkCompliance_nonempty_region by blast
  ultimately show ?thesis
    using main_decoded [OF assms(4,5,6), of accountID]
    by (simp add: report_nonEuWest1_text main_loop_account failed_def ignored_def accountVPCs_def)
qed

theorem main_reports_disjoint_witness:
  "http_Get good_world ''https://prism.gutools.co.uk/vpcs'' = Inr ()
   \<and> io_ReadAll good_world () = Inr [0x7B, 0x7D]
   \<and> json_Unmarshal good_world [0x7B, 0x7D] = Inr \<lparr>Data = \<lparr>VPCs = inventory\<rparr>\<rparr>
   \<and> stdout (main good_world ''111'') =
       ''Failed: vpc-2 (eu-west-1)'' @ [nl, tab] @ ''is Default VPC'' @ [nl, nl]
       @ ''Failed: vpc-3 (eu-west-1)'' @ [nl, tab] @ ''expected 3 public subnets, found 2'' @ [nl, nl]
       @ ''The following VPCs were ignored as are in non-standard regions:'' @ [nl, tab]
       @ ''vpc-4 (us-east-1)'' @ [nl]"
  using main_reports_disjoint [where w = good_world and resp = "()" and data = "[0x7B, 0x7D]"
      and prismResponse = "\<lparr>Data = \<lparr>VPCs = inventory\<rparr>\<rparr>" and accountID = "''111''"]
  by (simp add: good_world_def inventory_def vpc_1_def vpc_2_def vpc_3_def vpc_4_def vpc_5_def
      a_vpc_def a_subnet_def checkCompliance_def Filter_def len_def fmt_d_def fmtUint.simps
      digit_def errors_New_def reportCompliance_def Println_def)

end
